theory Spec2Isabelle
  imports Main "HOL-Library.Multiset"
begin

section \<open>JavaScript values\<close>

text \<open>
  The arguments of \<open>create\<close> are untyped JavaScript values. Only their type tag, their
  truthiness and (for strings) their content matter to \<open>src/notifications.js\<close>, so a
  number is an \<open>int\<close> or \<open>NaN\<close> and every object is the opaque \<open>JObj\<close>.
\<close>

datatype jsval = JUndefined | JNull | JBool bool | JNum int | JNaN | JStr string | JObj

text \<open>\<open>!v\<close> is \<open>\<not> truthy v\<close>.\<close>

fun truthy :: "jsval \<Rightarrow> bool" where
  "truthy JUndefined = False"
| "truthy JNull = False"
| "truthy (JBool b) = b"
| "truthy (JNum n) = (n \<noteq> 0)"
| "truthy JNaN = False"
| "truthy (JStr s) = (s \<noteq> [])"
| "truthy JObj = True"

fun typeof :: "jsval \<Rightarrow> string" where
  "typeof JUndefined = ''undefined''"
| "typeof JNull = ''object''"
| "typeof (JBool b) = ''boolean''"
| "typeof (JNum n) = ''number''"
| "typeof JNaN = ''number''"
| "typeof (JStr s) = ''string''"
| "typeof JObj = ''object''"

text \<open>lodash's \<open>_.isString\<close>.\<close>

fun isString :: "jsval \<Rightarrow> bool" where
  "isString (JStr s) = True"
| "isString v = False"

text \<open>The content of a string value; the source reads it only under a \<open>typeof\<close> test.\<close>

fun string_of :: "jsval \<Rightarrow> string" where
  "string_of (JStr s) = s"
| "string_of v = []"

text \<open>\<open>a || b\<close>.\<close>

definition js_or :: "jsval \<Rightarrow> jsval \<Rightarrow> jsval" where
  "js_or a b = (if truthy a then a else b)"

text \<open>
  \<open>String.prototype.toLowerCase\<close> on the ASCII range: the letters \<open>A\<close> to \<open>Z\<close> move to
  \<open>a\<close> to \<open>z\<close>, every other character stays.
\<close>

definition toLowerCase_char :: "char \<Rightarrow> char" where
  "toLowerCase_char c =
     (case map_of (zip ''ABCDEFGHIJKLMNOPQRSTUVWXYZ'' ''abcdefghijklmnopqrstuvwxyz'') c of
        Some l \<Rightarrow> l
      | None \<Rightarrow> c)"

definition toLowerCase :: "string \<Rightarrow> string" where
  "toLowerCase s = map toLowerCase_char s"

text \<open>lodash's \<open>_.includes\<close> on an array of strings.\<close>

definition includes_str :: "string list \<Rightarrow> string \<Rightarrow> bool" where
  "includes_str xs x = (x \<in> set xs)"

section \<open>Records, rows and the world\<close>

text \<open>The notification object built by \<open>create\<close> and by \<open>fromDatabase\<close>.\<close>

record notification =
  nid :: string
  message :: string
  level :: string
  moduleId :: string
  icon :: string
  name :: string
  url :: jsval
  date :: int
  sound :: jsval
  read :: bool

text \<open>A row of the table \<open>notifications\<close>, with the columns \<open>toDatabase\<close> writes.\<close>

record row =
  id_col :: string
  message_col :: string
  level_col :: string
  module_id :: string
  module_icon :: string
  module_name_col :: string
  redirect_url :: jsval
  created_on :: int
  read_col :: bool
  archived :: bool

text \<open>A registered module: \<open>mod.name\<close>, \<open>mod.root\<close>, \<open>mod.settings\<close>.\<close>

record module_settings =
  menuIcon :: string
  menuText :: string

record bp_module =
  mod_name :: string
  root :: string
  settings :: module_settings

text \<open>
  The collaborators handed to the factory \<open>notifications({ knex, modules, logger, events })\<close>:
  the module registry, the logger (absent, or the names of the methods it has) and whether
  an event bus is present. The table behind \<open>knex\<close> is part of the world below.
\<close>

record deps =
  modules :: "bp_module list"
  logger :: "string list option"
  events :: bool

text \<open>
  What one call of \<open>create\<close> reads from its surroundings: the value of
  \<open>callingFile && resolveModuleRootPath(callingFile)\<close>, \<open>uuid.v4()\<close>, \<open>new Date()\<close> and
  the store's clock behind \<open>helpers(knex).date.now()\<close>. The first comes from the call
  stack (\<open>getOriginatingModule\<close>) and from \<open>resolveModuleRootPath\<close> of \<open>./util\<close>, which is
  not among the source files, so it is an input here; timestamps are integers.
\<close>

record call_env =
  callingModuleRoot :: jsval
  uuid_v4 :: string
  new_Date :: int
  date_now :: int

text \<open>
  Everything the operations change: the table (in insertion order), the lines written
  through the logger (method name and line) and the events emitted (topic and payload).
\<close>

record world =
  notifications_table :: "row list"
  logged :: "(string \<times> string) list"
  emitted :: "(string \<times> notification) list"

datatype error = Error string | TypeError string

section \<open>The boundary to the store\<close>

text \<open>
  Modelled from the spec: \<open>./database/helpers\<close> is not among the source files. The spec
  says that boolean representations are store-specific and translated at the boundary, so
  the columns \<open>read\<close> and \<open>archived\<close> hold a \<open>bool\<close>, \<open>bool.true()\<close> and \<open>bool.false()\<close>
  are the two truth values and \<open>bool.parse\<close> reads a column back unchanged.
\<close>

definition bool_true :: bool where
  "bool_true = True"

definition bool_false :: bool where
  "bool_false = False"

definition bool_parse :: "bool \<Rightarrow> bool" where
  "bool_parse b = b"

definition toDatabase :: "int \<Rightarrow> notification \<Rightarrow> row" where
  "toDatabase now notification =
     \<lparr> id_col = nid notification,
       message_col = message notification,
       level_col = level notification,
       module_id = moduleId notification,
       module_icon = icon notification,
       module_name_col = name notification,
       redirect_url = url notification,
       created_on = now,
       read_col = bool_false,
       archived = bool_false \<rparr>"

definition fromDatabase :: "row \<Rightarrow> notification" where
  "fromDatabase r =
     \<lparr> nid = id_col r,
       message = message_col r,
       level = level_col r,
       moduleId = module_id r,
       icon = module_icon r,
       name = module_name_col r,
       url = redirect_url r,
       date = created_on r,
       sound = JBool False,
       read = bool_parse (read_col r) \<rparr>"

text \<open>
  The query builder calls the source chains, on a store that carries every statement out
  (a failure of the store itself is not part of the model). \<open>orderBy('created_on', 'DESC')\<close>
  is a stable sort on the negated timestamp: rows with equal timestamps keep their table
  order, which a store is free to choose otherwise; the theorems below use only that the
  result is a rearrangement of the rows in descending order.
\<close>

definition knex_insert :: "row \<Rightarrow> world \<Rightarrow> world" where
  "knex_insert r w = w\<lparr>notifications_table := notifications_table w @ [r]\<rparr>"

definition where_archived :: "bool \<Rightarrow> row list \<Rightarrow> row list" where
  "where_archived b rows = filter (\<lambda>r. archived r = b) rows"

definition orderBy_created_on_DESC :: "row list \<Rightarrow> row list" where
  "orderBy_created_on_DESC rows = sort_key (\<lambda>r. - created_on r) rows"

definition limit :: "nat \<Rightarrow> row list \<Rightarrow> row list" where
  "limit n rows = take n rows"

definition update_where_id :: "string \<Rightarrow> (row \<Rightarrow> row) \<Rightarrow> world \<Rightarrow> world" where
  "update_where_id i f w =
     w\<lparr>notifications_table := map (\<lambda>r. if id_col r = i then f r else r) (notifications_table w)\<rparr>"

definition update_all :: "(row \<Rightarrow> row) \<Rightarrow> world \<Rightarrow> world" where
  "update_all f w = w\<lparr>notifications_table := map f (notifications_table w)\<rparr>"

section \<open>The operations of \<open>src/notifications.js\<close>\<close>

text \<open>
  Inside \<open>create\<close> the test \<open>typeof url !== 'string'\<close> names \<open>url\<close>, which is neither a
  parameter nor a variable of the file; \<open>typeof\<close> of an undeclared name is \<open>'undefined'\<close>.
\<close>

definition typeof_url :: string where
  "typeof_url = ''undefined''"

text \<open>
  \<open>logger[level] || logger.info\<close>, then the call: the line goes to the method of that
  level when the logger has one, else to \<open>info\<close>; calling a missing method raises.
\<close>

definition logger_call :: "string list \<Rightarrow> string \<Rightarrow> string \<Rightarrow> world \<Rightarrow> error + world" where
  "logger_call methods lvl logMessage w =
     (if lvl \<in> set methods then Inr (w\<lparr>logged := logged w @ [(lvl, logMessage)]\<rparr>)
      else if ''info'' \<in> set methods then Inr (w\<lparr>logged := logged w @ [(''info'', logMessage)]\<rparr>)
      else Inl (TypeError ''loggerLevel is not a function''))"

definition events_emit :: "string \<Rightarrow> notification \<Rightarrow> world \<Rightarrow> world" where
  "events_emit topic payload w = w\<lparr>emitted := emitted w @ [(topic, payload)]\<rparr>"

text \<open>The text of the error \<open>create\<close> throws; \<open>CHR 0x27\<close> is the apostrophe.\<close>

definition message_mandatory :: string where
  "message_mandatory =
     [CHR 0x27] @ ''message'' @ [CHR 0x27] @ '' is mandatory and should be a string''"

text \<open>
  \<open>create\<close> returns how its promise settles (\<open>Inl\<close> the error thrown) and the world it
  leaves behind.
\<close>

definition create ::
  "deps \<Rightarrow> call_env \<Rightarrow> jsval \<Rightarrow> jsval \<Rightarrow> jsval \<Rightarrow> jsval \<Rightarrow> world \<Rightarrow> (error + unit) \<times> world" where
  "create d c msg redirectUrl lvl enableSound w =
     (if \<not> truthy msg \<or> typeof msg \<noteq> ''string'' then
        (Inl (Error message_mandatory), w)
      else
        let level' =
              (if \<not> truthy lvl \<or> typeof lvl \<noteq> ''string''
                  \<or> \<not> includes_str [''info'', ''error'', ''success''] (toLowerCase (string_of lvl))
               then ''info'' else toLowerCase (string_of lvl));
            module = find (\<lambda>m. JStr (root m) = callingModuleRoot c) (modules d);
            (o_moduleId, o_icon, o_name, o_url) =
              (case module of
                 None \<Rightarrow>
                   (''botpress'', ''view_module'', ''botpress'',
                    if isString redirectUrl then redirectUrl else JStr ''/'')
               | Some m \<Rightarrow>
                   (mod_name m, menuIcon (settings m), menuText (settings m),
                    if \<not> truthy redirectUrl \<or> typeof_url \<noteq> ''string''
                    then JStr (''/modules/'' @ mod_name m) else redirectUrl));
            notification =
              \<lparr> nid = uuid_v4 c,
                message = string_of msg,
                level = level',
                moduleId = o_moduleId,
                icon = o_icon,
                name = o_name,
                url = o_url,
                date = new_Date c,
                sound = js_or enableSound (JBool False),
                read = False \<rparr>;
            w1 = knex_insert (toDatabase (date_now c) notification) w;
            logMessage = ''[notification::'' @ moduleId notification @ ''] '' @ message notification
        in
          (case (case logger d of
                   None \<Rightarrow> Inr w1
                 | Some methods \<Rightarrow> logger_call methods level' logMessage w1) of
             Inl e \<Rightarrow> (Inl e, w1)
           | Inr w2 \<Rightarrow>
               (Inr (), if events d then events_emit ''notifications.new'' notification w2 else w2)))"

definition getArchived :: "world \<Rightarrow> notification list" where
  "getArchived w =
     map fromDatabase
       (limit 100 (orderBy_created_on_DESC (where_archived bool_true (notifications_table w))))"

definition getInbox :: "world \<Rightarrow> notification list" where
  "getInbox w =
     map fromDatabase
       (limit 100 (orderBy_created_on_DESC (where_archived bool_false (notifications_table w))))"

text \<open>
  The four updates have no failing branch of their own: each returns \<open>Inr ()\<close> and the
  world after the single \<open>UPDATE\<close> statement.
\<close>

definition archive :: "string \<Rightarrow> world \<Rightarrow> (error + unit) \<times> world" where
  "archive notificationId w =
     (Inr (), update_where_id notificationId (\<lambda>r. r\<lparr>archived := bool_true\<rparr>) w)"

definition archiveAll :: "world \<Rightarrow> (error + unit) \<times> world" where
  "archiveAll w = (Inr (), update_all (\<lambda>r. r\<lparr>archived := bool_true\<rparr>) w)"

definition markAsRead :: "string \<Rightarrow> world \<Rightarrow> (error + unit) \<times> world" where
  "markAsRead notificationId w =
     (Inr (), update_where_id notificationId (\<lambda>r. r\<lparr>read_col := bool_true\<rparr>) w)"

definition markAllAsRead :: "world \<Rightarrow> (error + unit) \<times> world" where
  "markAllAsRead w = (Inr (), update_all (\<lambda>r. r\<lparr>read_col := bool_true\<rparr>) w)"

text \<open>
  A call of one of the five state-changing operations, and the world after a sequence of
  such calls (each call runs to its end, whether its promise resolves or rejects).
\<close>

datatype op =
    Create call_env jsval jsval jsval jsval
  | Archive string
  | ArchiveAll
  | MarkAsRead string
  | MarkAllAsRead

fun run_op :: "deps \<Rightarrow> op \<Rightarrow> world \<Rightarrow> world" where
  "run_op d (Create c msg redirectUrl lvl enableSound) w =
     snd (create d c msg redirectUrl lvl enableSound w)"
| "run_op d (Archive i) w = snd (archive i w)"
| "run_op d ArchiveAll w = snd (archiveAll w)"
| "run_op d (MarkAsRead i) w = snd (markAsRead i w)"
| "run_op d MarkAllAsRead w = snd (markAllAsRead w)"

fun run_ops :: "deps \<Rightarrow> op list \<Rightarrow> world \<Rightarrow> world" where
  "run_ops d [] w = w"
| "run_ops d (x # xs) w = run_ops d xs (run_op d x w)"

text \<open>A \<open>create\<close> call whose message is a non-empty string.\<close>

fun valid_create :: "op \<Rightarrow> bool" where
  "valid_create (Create c msg redirectUrl lvl enableSound) = (truthy msg \<and> isString msg)"
| "valid_create x = False"

section \<open>Concrete inputs\<close>

text \<open>
  A bot with one registered module, a logger with the methods \<open>info\<close> and \<open>error\<close> and an
  event bus; a call made from that module's directory and a call made from the bot's own
  code; an empty store and a store with one inbox row and one archived row.
\<close>

definition example_deps :: deps where
  "example_deps =
     \<lparr> modules =
         [\<lparr> mod_name = ''botpress-hitl'', root = ''/bot/node_modules/botpress-hitl'',
            settings = \<lparr> menuIcon = ''feedback'', menuText = ''HITL'' \<rparr> \<rparr>],
       logger = Some [''info'', ''error''],
       events = True \<rparr>"

definition call_from_module :: call_env where
  "call_from_module =
     \<lparr> callingModuleRoot = JStr ''/bot/node_modules/botpress-hitl'', uuid_v4 = ''id-1'',
       new_Date = 1000, date_now = 1001 \<rparr>"

definition call_from_bot :: call_env where
  "call_from_bot =
     \<lparr> callingModuleRoot = JStr ''/bot'', uuid_v4 = ''id-2'', new_Date = 2000, date_now = 2001 \<rparr>"

definition empty_world :: world where
  "empty_world = \<lparr> notifications_table = [], logged = [], emitted = [] \<rparr>"

definition inbox_row :: row where
  "inbox_row =
     \<lparr> id_col = ''a'', message_col = ''first'', level_col = ''info'', module_id = ''botpress'',
       module_icon = ''view_module'', module_name_col = ''botpress'', redirect_url = JStr ''/'',
       created_on = 10, read_col = True, archived = False \<rparr>"

definition archived_row :: row where
  "archived_row =
     \<lparr> id_col = ''b'', message_col = ''second'', level_col = ''error'', module_id = ''botpress'',
       module_icon = ''view_module'', module_name_col = ''botpress'', redirect_url = JStr ''/'',
       created_on = 20, read_col = False, archived = True \<rparr>"

definition example_world :: world where
  "example_world = \<lparr> notifications_table = [inbox_row, archived_row], logged = [], emitted = [] \<rparr>"

section \<open>Facts about \<open>create\<close>\<close>

lemma typeof_string_iff: "typeof v = ''string'' \<longleftrightarrow> isString v"
  by (cases v) simp_all

text \<open>
  Past the check of the message, \<open>create\<close> appends exactly one row, whatever the logger
  and the event bus do afterwards; the lemma lists the columns of that row.
\<close>

lemma create_inserts:
  assumes "truthy msg" and "isString msg"
  shows "\<exists>r. notifications_table (snd (create d c msg redirectUrl lvl enableSound w)) =
           notifications_table w @ [r]
         \<and> id_col r = uuid_v4 c
         \<and> message_col r = string_of msg
         \<and> level_col r =
             (if truthy lvl \<and> isString lvl
                 \<and> toLowerCase (string_of lvl) \<in> set [''info'', ''error'', ''success'']
              then toLowerCase (string_of lvl) else ''info'')
         \<and> redirect_url r =
             (case find (\<lambda>m. JStr (root m) = callingModuleRoot c) (modules d) of
                None \<Rightarrow> if isString redirectUrl then redirectUrl else JStr ''/''
              | Some m \<Rightarrow> JStr (''/modules/'' @ mod_name m))
         \<and> created_on r = date_now c
         \<and> read_col r = False
         \<and> archived r = False"
  using assms
  by (auto simp add: create_def Let_def knex_insert_def toDatabase_def logger_call_def
      events_emit_def includes_str_def typeof_url_def bool_false_def typeof_string_iff
      split: option.splits sum.splits)

section \<open>Level normalisation\<close>

text \<open>
  Claim C1, at the level \<open>warning\<close>. The claim asks that every case variant of
  \<open>warning\<close> is stored as \<open>warning\<close>. The list \<open>create\<close> tests the level against is
  \<open>['info', 'error', 'success']\<close>, so for a valid message and any level whose lowercase
  form is \<open>warning\<close> the row that is stored has the level \<open>info\<close>.
\<close>

theorem create_level_warning_stored_as_info:
  assumes "truthy msg" and "isString msg" and "toLowerCase s = ''warning''"
  shows "\<exists>r. notifications_table (snd (create d c msg redirectUrl (JStr s) enableSound w)) =
           notifications_table w @ [r]
         \<and> level_col r = ''info''"
proof -
  from create_inserts [OF assms(1,2), of d c redirectUrl "JStr s" enableSound w]
  obtain r where r:
    "notifications_table (snd (create d c msg redirectUrl (JStr s) enableSound w)) =
       notifications_table w @ [r]"
    "level_col r =
       (if truthy (JStr s) \<and> isString (JStr s)
           \<and> toLowerCase (string_of (JStr s)) \<in> set [''info'', ''error'', ''success'']
        then toLowerCase (string_of (JStr s)) else ''info'')"
    by blast
  from r(2) assms(3) have "level_col r = ''info''"
    by simp
  with r(1) show ?thesis
    by blast
qed

theorem create_level_warning_stored_as_info_witness:
  "level_col (last (notifications_table
     (snd (create example_deps call_from_bot (JStr ''hi'') JUndefined (JStr ''warning'')
        JUndefined empty_world)))) = ''info''
   \<and> level_col (last (notifications_table
     (snd (create example_deps call_from_bot (JStr ''hi'') JUndefined (JStr ''WARNING'')
        JUndefined empty_world)))) = ''info''"
proof -
  have lower: "toLowerCase ''warning'' = ''warning''" "toLowerCase ''WARNING'' = ''warning''"
    by (simp_all add: toLowerCase_def toLowerCase_char_def)
  have valid: "truthy (JStr ''hi'')" "isString (JStr ''hi'')"
    by simp_all
  from create_level_warning_stored_as_info [OF valid lower(1)]
    create_level_warning_stored_as_info [OF valid lower(2)]
  show ?thesis
    by (metis last_snoc)
qed

section \<open>The redirect target\<close>

text \<open>
  Claim C2, as the code has it. For a valid message \<open>create\<close> stores one row. When no
  registered module has the caller's root, its \<open>redirect_url\<close> is \<open>redirectUrl\<close> if that
  is a string (the empty string included) and \<open>/\<close> otherwise. When a module matches and
  \<open>redirectUrl\<close> is falsy or not a string (absent, \<open>null\<close>, the empty string, a number,
  an object), it is \<open>/modules/\<close> followed by the module's name. The theorem says nothing
  about a module match with a non-empty string.
\<close>

theorem create_url:
  assumes "truthy msg" and "isString msg"
  shows "\<exists>r. notifications_table (snd (create d c msg redirectUrl lvl enableSound w)) =
           notifications_table w @ [r]
         \<and> (case find (\<lambda>m. JStr (root m) = callingModuleRoot c) (modules d) of
              None \<Rightarrow> redirect_url r = (if isString redirectUrl then redirectUrl else JStr ''/'')
            | Some m \<Rightarrow>
                (\<not> (truthy redirectUrl \<and> isString redirectUrl) \<longrightarrow>
                   redirect_url r = JStr (''/modules/'' @ mod_name m)))"
proof -
  from create_inserts [OF assms, of d c redirectUrl lvl enableSound w]
  obtain r where r:
    "notifications_table (snd (create d c msg redirectUrl lvl enableSound w)) =
       notifications_table w @ [r]"
    "redirect_url r =
       (case find (\<lambda>m. JStr (root m) = callingModuleRoot c) (modules d) of
          None \<Rightarrow> if isString redirectUrl then redirectUrl else JStr ''/''
        | Some m \<Rightarrow> JStr (''/modules/'' @ mod_name m))"
    by blast
  from r(2) have
    "case find (\<lambda>m. JStr (root m) = callingModuleRoot c) (modules d) of
       None \<Rightarrow> redirect_url r = (if isString redirectUrl then redirectUrl else JStr ''/'')
     | Some m \<Rightarrow>
         (\<not> (truthy redirectUrl \<and> isString redirectUrl) \<longrightarrow>
            redirect_url r = JStr (''/modules/'' @ mod_name m))"
    by (simp split: option.splits)
  with r(1) show ?thesis
    by blast
qed

text \<open>
  Called from the bot's own code with the string \<open>/custom\<close>, the row keeps \<open>/custom\<close>;
  called from the module with no \<open>redirectUrl\<close>, the row gets the module's path.
\<close>

theorem create_url_witness:
  "redirect_url (last (notifications_table
     (snd (create example_deps call_from_bot (JStr ''hi'') (JStr ''/custom'') JUndefined
        JUndefined empty_world)))) = JStr ''/custom''
   \<and> redirect_url (last (notifications_table
     (snd (create example_deps call_from_module (JStr ''hi'') JUndefined JUndefined
        JUndefined empty_world)))) = JStr ''/modules/botpress-hitl''"
proof -
  have valid: "truthy (JStr ''hi'')" "isString (JStr ''hi'')"
    by simp_all
  from create_url [OF valid, of example_deps call_from_bot "JStr ''/custom''" JUndefined
      JUndefined empty_world]
  have "redirect_url (last (notifications_table
     (snd (create example_deps call_from_bot (JStr ''hi'') (JStr ''/custom'') JUndefined
        JUndefined empty_world)))) = JStr ''/custom''"
    by (auto simp add: example_deps_def call_from_bot_def)
  moreover
  from create_url [OF valid, of example_deps call_from_module JUndefined JUndefined
      JUndefined empty_world]
  have "redirect_url (last (notifications_table
     (snd (create example_deps call_from_module (JStr ''hi'') JUndefined JUndefined
        JUndefined empty_world)))) = JStr ''/modules/botpress-hitl''"
    by (auto simp add: example_deps_def call_from_module_def)
  ultimately show ?thesis
    by blast
qed

text \<open>
  The claim as the spec words it fails: called from the module with the empty string as
  \<open>redirectUrl\<close>, which is a string, the row's \<open>redirect_url\<close> is the module's path and
  not the empty string.
\<close>

theorem create_url_counterexample:
  "isString (JStr [])
   \<and> redirect_url (last (notifications_table
       (snd (create example_deps call_from_module (JStr ''hi'') (JStr []) JUndefined
          JUndefined empty_world)))) = JStr ''/modules/botpress-hitl''
   \<and> JStr ''/modules/botpress-hitl'' \<noteq> JStr []"
  by (simp add: create_def Let_def knex_insert_def toDatabase_def logger_call_def
      events_emit_def includes_str_def typeof_url_def example_deps_def call_from_module_def
      empty_world_def)

text \<open>
  With a module match the test \<open>typeof url !== 'string'\<close> holds on every call, so a
  non-empty string is replaced by the module's path as well.
\<close>

lemma create_url_module_match_discards_string:
  "redirect_url (last (notifications_table
     (snd (create example_deps call_from_module (JStr ''hi'') (JStr ''/custom'') JUndefined
        JUndefined empty_world)))) = JStr ''/modules/botpress-hitl''"
  by (simp add: create_def Let_def knex_insert_def toDatabase_def logger_call_def
      events_emit_def includes_str_def typeof_url_def example_deps_def call_from_module_def
      empty_world_def)

section \<open>Validation of the message\<close>

text \<open>
  Claim C3. When the message is missing (\<open>undefined\<close>) or not a string, \<open>create\<close> ends
  with the error whose text is \<open>'message' is mandatory and should be a string\<close>, and the
  world it leaves is the world it was given: no row is inserted, no line is logged and no
  event is emitted. The error is the only one \<open>create\<close> throws itself, the spec's
  \<open>ValidationError\<close>.
\<close>

theorem create_invalid_message:
  assumes "msg = JUndefined \<or> \<not> isString msg"
  shows "create d c msg redirectUrl lvl enableSound w = (Inl (Error message_mandatory), w)"
proof -
  from assms have "\<not> isString msg"
    by auto
  then have "typeof msg \<noteq> ''string''"
    by (simp add: typeof_string_iff)
  then show ?thesis
    by (simp add: create_def)
qed

theorem create_invalid_message_witness:
  "create example_deps call_from_module JUndefined (JStr ''/custom'') (JStr ''error'')
     (JBool True) example_world = (Inl (Error message_mandatory), example_world)
   \<and> create example_deps call_from_module (JNum 5) (JStr ''/custom'') (JStr ''error'')
     (JBool True) example_world = (Inl (Error message_mandatory), example_world)"
proof -
  have "JUndefined = JUndefined \<or> \<not> isString JUndefined"
    by simp
  moreover have "JNum 5 = JUndefined \<or> \<not> isString (JNum 5)"
    by simp
  ultimately show ?thesis
    using create_invalid_message [of JUndefined] create_invalid_message [of "JNum 5"]
    by blast
qed

section \<open>The row a valid call stores\<close>

text \<open>
  Claim C4. For a call of \<open>create\<close> whose message is a non-empty string, the row that is
  stored has \<open>read\<close> false, \<open>archived\<close> false and a level among \<open>info\<close>, \<open>success\<close>,
  \<open>error\<close> and \<open>warning\<close>.
\<close>

theorem create_row_fresh:
  assumes "truthy msg" and "isString msg"
  shows "\<exists>r. notifications_table (snd (create d c msg redirectUrl lvl enableSound w)) =
           notifications_table w @ [r]
         \<and> read_col r = False
         \<and> archived r = False
         \<and> level_col r \<in> {''info'', ''success'', ''error'', ''warning''}"
proof -
  from create_inserts [OF assms, of d c redirectUrl lvl enableSound w]
  obtain r where r:
    "notifications_table (snd (create d c msg redirectUrl lvl enableSound w)) =
       notifications_table w @ [r]"
    "level_col r =
       (if truthy lvl \<and> isString lvl
           \<and> toLowerCase (string_of lvl) \<in> set [''info'', ''error'', ''success'']
        then toLowerCase (string_of lvl) else ''info'')"
    "read_col r = False" "archived r = False"
    by blast
  from r(2) have "level_col r \<in> {''info'', ''success'', ''error'', ''warning''}"
    by (auto split: if_splits)
  with r(1,3,4) show ?thesis
    by blast
qed

theorem create_row_fresh_witness:
  "read_col (last (notifications_table
     (snd (create example_deps call_from_module (JStr ''hi'') JUndefined (JStr ''Error'')
        (JBool True) example_world)))) = False
   \<and> archived (last (notifications_table
     (snd (create example_deps call_from_module (JStr ''hi'') JUndefined (JStr ''Error'')
        (JBool True) example_world)))) = False
   \<and> level_col (last (notifications_table
     (snd (create example_deps call_from_module (JStr ''hi'') JUndefined (JStr ''Error'')
        (JBool True) example_world)))) \<in> {''info'', ''success'', ''error'', ''warning''}"
proof -
  have valid: "truthy (JStr ''hi'')" "isString (JStr ''hi'')"
    by simp_all
  from create_row_fresh [OF valid, of example_deps call_from_module JUndefined "JStr ''Error''"
      "JBool True" example_world]
  show ?thesis
    by (metis last_snoc)
qed

section \<open>Facts about the two queries\<close>

lemma orderBy_mset: "mset (orderBy_created_on_DESC rows) = mset rows"
  by (simp add: orderBy_created_on_DESC_def)

lemma orderBy_set: "set (orderBy_created_on_DESC rows) = set rows"
  by (simp add: orderBy_created_on_DESC_def)

lemma orderBy_length: "length (orderBy_created_on_DESC rows) = length rows"
  by (simp add: orderBy_created_on_DESC_def)

lemma orderBy_sorted:
  "sorted_wrt (\<lambda>a b. created_on b \<le> created_on a) (orderBy_created_on_DESC rows)"
proof -
  have "sorted (map (\<lambda>r. - created_on r) (orderBy_created_on_DESC rows))"
    by (simp add: orderBy_created_on_DESC_def)
  then show ?thesis
    by (simp add: sorted_wrt_map)
qed

lemma date_fromDatabase: "date (fromDatabase r) = created_on r"
  by (simp add: fromDatabase_def)

text \<open>A page: what both queries do with the rows their \<open>where\<close> clause selects.\<close>

lemma page_sorted:
  "sorted_wrt (\<lambda>a b. date b \<le> date a)
     (map fromDatabase (limit 100 (orderBy_created_on_DESC rows)))"
proof -
  have "sorted_wrt (\<lambda>a b. created_on b \<le> created_on a)
          (limit 100 (orderBy_created_on_DESC rows))"
    unfolding limit_def by (rule sorted_wrt_take) (rule orderBy_sorted)
  then show ?thesis
    by (simp add: sorted_wrt_map date_fromDatabase)
qed

lemma page_length:
  "length (limit 100 (orderBy_created_on_DESC rows)) = min 100 (length rows)"
  by (simp add: limit_def orderBy_length min.commute)

lemma page_rest:
  "mset (map fromDatabase rows)
     - mset (map fromDatabase (limit 100 (orderBy_created_on_DESC rows)))
   = mset (map fromDatabase (drop 100 (orderBy_created_on_DESC rows)))"
proof -
  let ?S = "orderBy_created_on_DESC rows"
  have "mset (map fromDatabase rows) = mset (map fromDatabase ?S)"
    by (simp add: orderBy_mset)
  also have "\<dots> = mset (map fromDatabase (take 100 ?S)) + mset (map fromDatabase (drop 100 ?S))"
    by (metis append_take_drop_id map_append mset_append)
  finally show ?thesis
    by (simp add: limit_def)
qed

lemma page_newest:
  assumes "a \<in> set (map fromDatabase (limit 100 (orderBy_created_on_DESC rows)))"
    and "b \<in> set (map fromDatabase (drop 100 (orderBy_created_on_DESC rows)))"
  shows "date b \<le> date a"
proof -
  let ?S = "orderBy_created_on_DESC rows"
  have "sorted_wrt (\<lambda>a b. created_on b \<le> created_on a) (take 100 ?S @ drop 100 ?S)"
    by (simp add: orderBy_sorted)
  then have "\<forall>x \<in> set (take 100 ?S). \<forall>y \<in> set (drop 100 ?S). created_on y \<le> created_on x"
    unfolding sorted_wrt_append by blast
  with assms show ?thesis
    by (auto simp add: limit_def date_fromDatabase)
qed

lemma page_subset:
  "set (limit 100 (orderBy_created_on_DESC (where_archived b rows)))
     \<subseteq> {r \<in> set rows. archived r = b}"
proof -
  have "set (limit 100 (orderBy_created_on_DESC (where_archived b rows)))
          \<subseteq> set (orderBy_created_on_DESC (where_archived b rows))"
    unfolding limit_def by (rule set_take_subset)
  then show ?thesis
    by (auto simp add: orderBy_set where_archived_def)
qed

lemma where_archived_false: "where_archived bool_false rows = filter (\<lambda>r. \<not> archived r) rows"
  by (simp add: where_archived_def bool_false_def)

text \<open>Every valid \<open>create\<close> adds one row to the rows the inbox query selects.\<close>

lemma run_op_valid_create_inbox:
  assumes "valid_create x"
  shows "length (where_archived bool_false (notifications_table (run_op d x w))) =
         Suc (length (where_archived bool_false (notifications_table w)))"
proof (cases x)
  case (Create c msg redirectUrl lvl enableSound)
  with assms have valid: "truthy msg" "isString msg"
    by simp_all
  from create_inserts [OF valid, of d c redirectUrl lvl enableSound w]
  obtain r where
    "notifications_table (snd (create d c msg redirectUrl lvl enableSound w)) =
       notifications_table w @ [r]"
    and "archived r = False"
    by blast
  with Create show ?thesis
    by (simp add: where_archived_false)
qed (use assms in simp_all)

lemma run_ops_valid_creates_inbox:
  assumes "\<forall>x \<in> set ops. valid_create x"
  shows "length (where_archived bool_false (notifications_table (run_ops d ops w))) =
         length (where_archived bool_false (notifications_table w)) + length ops"
  using assms
proof (induction ops arbitrary: w)
  case Nil
  then show ?case by simp
next
  case (Cons x xs)
  then have "valid_create x" and "\<forall>y \<in> set xs. valid_create y"
    by simp_all
  with Cons.IH [of "run_op d x w"] run_op_valid_create_inbox [of x d w]
  show ?case
    by simp
qed

section \<open>Inbox and archive\<close>

text \<open>
  Claim C5. The records \<open>getInbox\<close> and \<open>getArchived\<close> return carry no \<open>archived\<close> field
  (\<open>fromDatabase\<close> does not copy the column), so the claim is about the rows they are read
  from: every record \<open>getInbox\<close> returns is \<open>fromDatabase\<close> of a row of the table whose
  \<open>archived\<close> is false, and every record \<open>getArchived\<close> returns is \<open>fromDatabase\<close> of a
  row whose \<open>archived\<close> is true.
\<close>

theorem queries_partition_by_archived:
  "(\<forall>n \<in> set (getInbox w).
      \<exists>r \<in> set (notifications_table w). n = fromDatabase r \<and> archived r = False)
   \<and> (\<forall>n \<in> set (getArchived w).
      \<exists>r \<in> set (notifications_table w). n = fromDatabase r \<and> archived r = True)"
proof -
  have "\<exists>r \<in> set (notifications_table w). n = fromDatabase r \<and> archived r = b"
    if "n \<in> set (map fromDatabase
         (limit 100 (orderBy_created_on_DESC (where_archived b (notifications_table w)))))"
    for n b
    using that page_subset [of b "notifications_table w"] by auto
  from this [of _ bool_false] this [of _ bool_true] show ?thesis
    unfolding getInbox_def getArchived_def bool_false_def bool_true_def by blast
qed

theorem queries_partition_by_archived_witness:
  "(\<exists>r \<in> set (notifications_table example_world).
      fromDatabase inbox_row = fromDatabase r \<and> archived r = False)
   \<and> (\<exists>r \<in> set (notifications_table example_world).
      fromDatabase archived_row = fromDatabase r \<and> archived r = True)"
proof -
  have "fromDatabase inbox_row \<in> set (getInbox example_world)"
    by (simp add: getInbox_def limit_def orderBy_created_on_DESC_def where_archived_def
        bool_false_def example_world_def inbox_row_def archived_row_def)
  moreover have "fromDatabase archived_row \<in> set (getArchived example_world)"
    by (simp add: getArchived_def limit_def orderBy_created_on_DESC_def where_archived_def
        bool_true_def example_world_def inbox_row_def archived_row_def)
  ultimately show ?thesis
    using queries_partition_by_archived [of example_world] by blast
qed

section \<open>Page size and order\<close>

text \<open>
  Claim C6. In every state \<open>getInbox\<close> and \<open>getArchived\<close> return at most 100 records,
  newest first by creation time (the \<open>date\<close> of a record is the \<open>created_on\<close> of its row).
  The inbox page holds the most recent ones: every non-archived record left out is no
  newer than any record returned. After 150 valid calls of \<open>create\<close>, from any state,
  \<open>getInbox\<close> returns exactly 100 records.
\<close>

theorem queries_page:
  "length (getInbox w) \<le> 100
   \<and> sorted_wrt (\<lambda>a b. date b \<le> date a) (getInbox w)
   \<and> length (getArchived w) \<le> 100
   \<and> sorted_wrt (\<lambda>a b. date b \<le> date a) (getArchived w)
   \<and> (\<forall>a \<in> set (getInbox w).
        \<forall>b \<in># mset (map fromDatabase (filter (\<lambda>r. \<not> archived r) (notifications_table w)))
                 - mset (getInbox w).
          date b \<le> date a)
   \<and> (length ops = 150 \<and> (\<forall>x \<in> set ops. valid_create x) \<longrightarrow>
        length (getInbox (run_ops d ops w)) = 100)"
proof -
  have len: "length (getInbox w) \<le> 100" "length (getArchived w) \<le> 100"
    by (simp_all add: getInbox_def getArchived_def page_length)
  have ord: "sorted_wrt (\<lambda>a b. date b \<le> date a) (getInbox w)"
    "sorted_wrt (\<lambda>a b. date b \<le> date a) (getArchived w)"
    by (simp_all add: getInbox_def getArchived_def page_sorted)
  have newest: "date b \<le> date a"
    if "a \<in> set (getInbox w)"
      and "b \<in># mset (map fromDatabase (filter (\<lambda>r. \<not> archived r) (notifications_table w)))
                 - mset (getInbox w)"
    for a b
  proof -
    from that(2) have "b \<in> set (map fromDatabase
        (drop 100 (orderBy_created_on_DESC (where_archived bool_false (notifications_table w)))))"
      unfolding getInbox_def where_archived_false [symmetric] page_rest by simp
    with that(1) show ?thesis
      unfolding getInbox_def by (rule page_newest)
  qed
  have full: "length (getInbox (run_ops d ops w)) = 100"
    if "length ops = 150" and "\<forall>x \<in> set ops. valid_create x"
  proof -
    from run_ops_valid_creates_inbox [OF that(2), of d w] that(1)
    have "100 \<le> length (where_archived bool_false (notifications_table (run_ops d ops w)))"
      by simp
    then show ?thesis
      by (simp add: getInbox_def page_length)
  qed
  from len ord newest full show ?thesis
    by blast
qed

theorem queries_page_witness:
  "length (getInbox (run_ops example_deps
     (replicate 150 (Create call_from_bot (JStr ''hi'') JUndefined JUndefined JUndefined))
     empty_world)) = 100"
proof -
  have "length (replicate 150 (Create call_from_bot (JStr ''hi'') JUndefined JUndefined JUndefined))
          = 150
        \<and> (\<forall>x \<in> set (replicate 150
              (Create call_from_bot (JStr ''hi'') JUndefined JUndefined JUndefined)).
             valid_create x)"
    by simp
  with queries_page [of empty_world
      "replicate 150 (Create call_from_bot (JStr ''hi'') JUndefined JUndefined JUndefined)"
      example_deps]
  show ?thesis
    by blast
qed

section \<open>The sound flag\<close>

text \<open>
  Claim C10. The table has no column for the sound flag and \<open>fromDatabase\<close> sets \<open>sound\<close>
  to \<open>false\<close>: in every state, so also after any call of \<open>create\<close>, every record
  \<open>getInbox\<close> or \<open>getArchived\<close> returns has \<open>sound = false\<close>, and the table \<open>create\<close>
  leaves does not depend on \<open>enableSound\<close>.
\<close>

theorem sound_not_persisted:
  "(\<forall>n \<in> set (getInbox w). sound n = JBool False)
   \<and> (\<forall>n \<in> set (getArchived w). sound n = JBool False)
   \<and> notifications_table (snd (create d c msg redirectUrl lvl enableSound w)) =
       notifications_table (snd (create d c msg redirectUrl lvl enableSound' w))"
proof -
  have "\<forall>n \<in> set (getInbox w). sound n = JBool False"
    by (auto simp add: getInbox_def fromDatabase_def)
  moreover have "\<forall>n \<in> set (getArchived w). sound n = JBool False"
    by (auto simp add: getArchived_def fromDatabase_def)
  moreover have "notifications_table (snd (create d c msg redirectUrl lvl enableSound w)) =
       notifications_table (snd (create d c msg redirectUrl lvl enableSound' w))"
    by (simp add: create_def Let_def knex_insert_def toDatabase_def logger_call_def
        events_emit_def split: option.splits sum.splits)
  ultimately show ?thesis
    by blast
qed

theorem sound_not_persisted_witness:
  "sound (hd (getInbox (snd (create example_deps call_from_bot (JStr ''hi'') JUndefined
     JUndefined (JBool True) empty_world)))) = JBool False"
proof -
  let ?w = "snd (create example_deps call_from_bot (JStr ''hi'') JUndefined
     JUndefined (JBool True) empty_world)"
  have valid: "truthy (JStr ''hi'')" "isString (JStr ''hi'')"
    by simp_all
  from create_inserts [OF valid, of example_deps call_from_bot JUndefined JUndefined
      "JBool True" empty_world]
  obtain r where "notifications_table ?w = [r]" and "archived r = False"
    by (auto simp add: empty_world_def)
  then have "getInbox ?w = [fromDatabase r]"
    by (simp add: getInbox_def limit_def orderBy_created_on_DESC_def where_archived_def
        bool_false_def)
  then have "hd (getInbox ?w) \<in> set (getInbox ?w)"
    by simp
  with sound_not_persisted [of ?w] show ?thesis
    by blast
qed

section \<open>Facts about the updates\<close>

lemma create_appends:
  "\<exists>rs. notifications_table (snd (create d c msg redirectUrl lvl enableSound w)) =
          notifications_table w @ rs"
  by (simp add: create_def Let_def knex_insert_def logger_call_def events_emit_def
      split: option.splits sum.splits)

text \<open>
  One operation keeps every row that is there at its place and with its id, and turns
  neither of its flags off.
\<close>

lemma run_op_keeps_flags:
  assumes "i < length (notifications_table w)"
  shows "i < length (notifications_table (run_op d x w))
         \<and> id_col (notifications_table (run_op d x w) ! i) = id_col (notifications_table w ! i)
         \<and> (read_col (notifications_table w ! i) \<longrightarrow>
              read_col (notifications_table (run_op d x w) ! i))
         \<and> (archived (notifications_table w ! i) \<longrightarrow>
              archived (notifications_table (run_op d x w) ! i))"
proof (cases x)
  case (Create c msg redirectUrl lvl enableSound)
  from create_appends [of d c msg redirectUrl lvl enableSound w]
  obtain rs where "notifications_table (run_op d x w) = notifications_table w @ rs"
    unfolding Create by auto
  with assms show ?thesis
    by (simp add: nth_append)
next
  case (Archive j)
  with assms show ?thesis
    by (simp add: archive_def update_where_id_def bool_true_def)
next
  case ArchiveAll
  with assms show ?thesis
    by (simp add: archiveAll_def update_all_def bool_true_def)
next
  case (MarkAsRead j)
  with assms show ?thesis
    by (simp add: markAsRead_def update_where_id_def bool_true_def)
next
  case MarkAllAsRead
  with assms show ?thesis
    by (simp add: markAllAsRead_def update_all_def bool_true_def)
qed

section \<open>Monotone flags\<close>

text \<open>
  Claim C7. Through any sequence of calls of \<open>create\<close>, \<open>archive\<close>, \<open>archiveAll\<close>,
  \<open>markAsRead\<close> and \<open>markAllAsRead\<close>, from any state, every row of the table stays at
  its place with its id; if its \<open>read\<close> flag was true it is true afterwards, and if its
  \<open>archived\<close> flag was true it is true afterwards.
\<close>

theorem flags_monotone:
  "\<forall>i < length (notifications_table w).
     i < length (notifications_table (run_ops d ops w))
     \<and> id_col (notifications_table (run_ops d ops w) ! i) = id_col (notifications_table w ! i)
     \<and> (read_col (notifications_table w ! i) \<longrightarrow>
          read_col (notifications_table (run_ops d ops w) ! i))
     \<and> (archived (notifications_table w ! i) \<longrightarrow>
          archived (notifications_table (run_ops d ops w) ! i))"
proof (induction ops arbitrary: w)
  case Nil
  show ?case by simp
next
  case (Cons x xs)
  show ?case
  proof (intro allI impI)
    fix i
    assume i: "i < length (notifications_table w)"
    let ?w1 = "run_op d x w"
    note step = run_op_keeps_flags [OF i, of d x]
    then have "i < length (notifications_table ?w1)"
      by blast
    with Cons.IH [of ?w1] have rest:
      "i < length (notifications_table (run_ops d xs ?w1))
       \<and> id_col (notifications_table (run_ops d xs ?w1) ! i) = id_col (notifications_table ?w1 ! i)
       \<and> (read_col (notifications_table ?w1 ! i) \<longrightarrow>
            read_col (notifications_table (run_ops d xs ?w1) ! i))
       \<and> (archived (notifications_table ?w1 ! i) \<longrightarrow>
            archived (notifications_table (run_ops d xs ?w1) ! i))"
      by blast
    from step rest show
      "i < length (notifications_table (run_ops d (x # xs) w))
       \<and> id_col (notifications_table (run_ops d (x # xs) w) ! i) = id_col (notifications_table w ! i)
       \<and> (read_col (notifications_table w ! i) \<longrightarrow>
            read_col (notifications_table (run_ops d (x # xs) w) ! i))
       \<and> (archived (notifications_table w ! i) \<longrightarrow>
            archived (notifications_table (run_ops d (x # xs) w) ! i))"
      by simp
  qed
qed

text \<open>
  In the example store the first row is read and the second archived; they stay so
  through a \<open>create\<close>, an \<open>archive\<close> of the first row and a \<open>markAllAsRead\<close>.
\<close>

theorem flags_monotone_witness:
  "read_col (notifications_table (run_ops example_deps
      [Create call_from_bot (JStr ''hi'') JUndefined JUndefined JUndefined,
       Archive ''a'', MarkAllAsRead] example_world) ! 0) = True
   \<and> archived (notifications_table (run_ops example_deps
      [Create call_from_bot (JStr ''hi'') JUndefined JUndefined JUndefined,
       Archive ''a'', MarkAllAsRead] example_world) ! 1) = True"
proof -
  let ?ops = "[Create call_from_bot (JStr ''hi'') JUndefined JUndefined JUndefined,
       Archive ''a'', MarkAllAsRead]"
  have table: "notifications_table example_world = [inbox_row, archived_row]"
    by (simp add: example_world_def)
  have "0 < length (notifications_table example_world)"
    and "read_col (notifications_table example_world ! 0)"
    by (simp_all add: table inbox_row_def)
  moreover have "1 < length (notifications_table example_world)"
    and "archived (notifications_table example_world ! 1)"
    by (simp_all add: table archived_row_def)
  ultimately show ?thesis
    using flags_monotone [of example_world example_deps ?ops] by blast
qed

section \<open>Marking one notification as read\<close>

text \<open>
  Claim C8. \<open>markAsRead\<close> with an id, applied to the state it has produced, gives that
  state again. It leaves the log, the emitted events and the number of rows as they are;
  each row keeps all its columns but \<open>read\<close>, a row with another id is unchanged, and a
  row with the id has \<open>read\<close> true.
\<close>

theorem markAsRead_idempotent:
  "markAsRead i (snd (markAsRead i w)) = markAsRead i w
   \<and> logged (snd (markAsRead i w)) = logged w
   \<and> emitted (snd (markAsRead i w)) = emitted w
   \<and> length (notifications_table (snd (markAsRead i w))) = length (notifications_table w)
   \<and> (\<forall>j < length (notifications_table w).
        notifications_table (snd (markAsRead i w)) ! j =
          (notifications_table w ! j)
            \<lparr>read_col := read_col (notifications_table (snd (markAsRead i w)) ! j)\<rparr>
        \<and> (id_col (notifications_table w ! j) \<noteq> i \<longrightarrow>
             notifications_table (snd (markAsRead i w)) ! j = notifications_table w ! j)
        \<and> (id_col (notifications_table w ! j) = i \<longrightarrow>
             read_col (notifications_table (snd (markAsRead i w)) ! j)))"
proof -
  have "markAsRead i (snd (markAsRead i w)) = markAsRead i w"
    by (simp add: markAsRead_def update_where_id_def comp_def)
  moreover have "logged (snd (markAsRead i w)) = logged w"
    and "emitted (snd (markAsRead i w)) = emitted w"
    and "length (notifications_table (snd (markAsRead i w))) = length (notifications_table w)"
    by (simp_all add: markAsRead_def update_where_id_def)
  moreover have "\<forall>j < length (notifications_table w).
        notifications_table (snd (markAsRead i w)) ! j =
          (notifications_table w ! j)
            \<lparr>read_col := read_col (notifications_table (snd (markAsRead i w)) ! j)\<rparr>
        \<and> (id_col (notifications_table w ! j) \<noteq> i \<longrightarrow>
             notifications_table (snd (markAsRead i w)) ! j = notifications_table w ! j)
        \<and> (id_col (notifications_table w ! j) = i \<longrightarrow>
             read_col (notifications_table (snd (markAsRead i w)) ! j))"
    by (simp add: markAsRead_def update_where_id_def bool_true_def)
  ultimately show ?thesis
    by blast
qed

theorem markAsRead_idempotent_witness:
  "markAsRead ''b'' (snd (markAsRead ''b'' example_world)) = markAsRead ''b'' example_world
   \<and> notifications_table (snd (markAsRead ''b'' example_world)) ! 0 = inbox_row
   \<and> read_col (notifications_table (snd (markAsRead ''b'' example_world)) ! 1) = True"
proof -
  have table: "notifications_table example_world = [inbox_row, archived_row]"
    by (simp add: example_world_def)
  have "0 < length (notifications_table example_world)"
    and "id_col (notifications_table example_world ! 0) \<noteq> ''b''"
    and "notifications_table example_world ! 0 = inbox_row"
    by (simp_all add: table inbox_row_def)
  moreover have "1 < length (notifications_table example_world)"
    and "id_col (notifications_table example_world ! 1) = ''b''"
    by (simp_all add: table archived_row_def)
  ultimately show ?thesis
    using markAsRead_idempotent [of "''b''" example_world] by metis
qed

section \<open>Archiving an unknown id\<close>

text \<open>
  Claim C9. When no row of the table has the id, \<open>archive\<close> with that id succeeds (its
  result is \<open>Inr ()\<close>) and leaves the state, so every row, as it was.
\<close>

theorem archive_unknown_id:
  assumes "i \<notin> id_col ` set (notifications_table w)"
  shows "archive i w = (Inr (), w)"
proof -
  from assms have "map (\<lambda>r. if id_col r = i then r\<lparr>archived := bool_true\<rparr> else r)
      (notifications_table w) = notifications_table w"
    by (intro map_idI) auto
  then show ?thesis
    by (simp add: archive_def update_where_id_def)
qed

theorem archive_unknown_id_witness:
  "archive ''no-such-id'' example_world = (Inr (), example_world)"
proof -
  have "''no-such-id'' \<notin> id_col ` set (notifications_table example_world)"
    by (simp add: example_world_def inbox_row_def archived_row_def)
  then show ?thesis
    by (rule archive_unknown_id)
qed

end
